theory Spec2Isabelle
  imports Main
begin

section \<open>JavaScript values\<close>

text \<open>
  The project service works on loosely typed objects (\<^verbatim>\<open>project: any\<close>), so the
  translator is modelled over a datatype of JavaScript data values. A number is either
  \<^verbatim>\<open>NaN\<close> or a value of a type \<open>'n\<close> with \<open>0 \<noteq> 1\<close>; the two zeros of IEEE arithmetic
  are one value here. An object is the list of its own enumerable properties in key
  order; the keys of an object are distinct, and every operation below reads and writes
  the first binding of a key. Objects are plain data objects (no \<^verbatim>\<open>length\<close>,
  \<^verbatim>\<open>toString\<close> or \<^verbatim>\<open>valueOf\<close> of their own).
\<close>

datatype 'n jsnum = NaN | Num 'n

datatype 'n jsval =
    JUndefined
  | JNull
  | JBool bool
  | JNum "'n jsnum"
  | JStr string
  | JArr "'n jsval list"
  | JObj "(string \<times> 'n jsval) list"

type_synonym 'n props = "(string \<times> 'n jsval) list"

text \<open>
  What the runtime provides and the repository does not define: the conversions
  between strings and numbers, \<^verbatim>\<open>JSON.stringify\<close>, \<^verbatim>\<open>JSON.parse\<close> (\<open>None\<close> when it
  throws) and Node's \<^verbatim>\<open>net.isIP\<close> (0, 4 or 6). They are parameters of the model.
\<close>

record 'n platform =
  str2num :: "string \<Rightarrow> 'n jsnum"
  num2str :: "'n jsnum \<Rightarrow> string"
  json_stringify :: "'n jsval \<Rightarrow> string"
  json_parse :: "string \<Rightarrow> 'n jsval option"
  net_isIP :: "string \<Rightarrow> nat"

subsection \<open>Property access and object spread\<close>

definition get_prop :: "'n props \<Rightarrow> string \<Rightarrow> 'n jsval" where
  "get_prop ps k = (case map_of ps k of None \<Rightarrow> JUndefined | Some v \<Rightarrow> v)"

text \<open>Assignment \<^verbatim>\<open>o.k = v\<close>: an existing key keeps its place, a new key goes last.\<close>

fun set_prop :: "string \<Rightarrow> 'n jsval \<Rightarrow> 'n props \<Rightarrow> 'n props" where
  "set_prop k v [] = [(k, v)]"
| "set_prop k v (p # ps) = (if fst p = k then (k, v) # ps else p # set_prop k v ps)"

definition digit_char :: "nat \<Rightarrow> char" where
  "digit_char d = ''0123456789'' ! d"

fun string_of_nat :: "nat \<Rightarrow> string" where
  "string_of_nat n =
     (if n < 10 then [digit_char n] else string_of_nat (n div 10) @ [digit_char (n mod 10)])"

text \<open>
  \<^verbatim>\<open>{ ...v }\<close>: the own enumerable properties of \<open>v\<close>. An array and a string spread to
  their index keys, \<^verbatim>\<open>null\<close>, \<^verbatim>\<open>undefined\<close>, booleans and numbers to nothing.
\<close>

fun spread :: "'n jsval \<Rightarrow> 'n props" where
  "spread (JObj kvs) = kvs"
| "spread (JArr xs) = zip (map string_of_nat [0..<length xs]) xs"
| "spread (JStr s) = zip (map string_of_nat [0..<length s]) (map (\<lambda>c. JStr [c]) s)"
| "spread JUndefined = []"
| "spread JNull = []"
| "spread (JBool b) = []"
| "spread (JNum n) = []"

subsection \<open>Conversions\<close>

fun join_sep :: "string \<Rightarrow> string list \<Rightarrow> string" where
  "join_sep sep [] = []"
| "join_sep sep [x] = x"
| "join_sep sep (x # y # ys) = x @ sep @ join_sep sep (y # ys)"

text \<open>
  \<^verbatim>\<open>ToString\<close> of the language. An array prints as \<^verbatim>\<open>Array.prototype.join\<close> with a
  comma does: \<^verbatim>\<open>null\<close> and \<^verbatim>\<open>undefined\<close> elements print as the empty string.
\<close>

fun ToString :: "'n platform \<Rightarrow> 'n jsval \<Rightarrow> string" where
  "ToString pf JUndefined = ''undefined''"
| "ToString pf JNull = ''null''"
| "ToString pf (JBool b) = (if b then ''true'' else ''false'')"
| "ToString pf (JNum n) = num2str pf n"
| "ToString pf (JStr s) = s"
| "ToString pf (JArr xs) =
     join_sep '',''
       (map (\<lambda>x. if x = JUndefined \<or> x = JNull then [] else ToString pf x) xs)"
| "ToString pf (JObj kvs) = ''[object Object]''"

definition array_join :: "'n platform \<Rightarrow> string \<Rightarrow> 'n jsval list \<Rightarrow> string" where
  "array_join pf sep xs =
     join_sep sep (map (\<lambda>x. if x = JUndefined \<or> x = JNull then [] else ToString pf x) xs)"

text \<open>\<^verbatim>\<open>Number(v)\<close>: an array or object is converted through its string form.\<close>

fun Number :: "('n::zero_neq_one) platform \<Rightarrow> 'n jsval \<Rightarrow> 'n jsnum" where
  "Number pf JUndefined = NaN"
| "Number pf JNull = Num 0"
| "Number pf (JBool b) = (if b then Num 1 else Num 0)"
| "Number pf (JNum n) = n"
| "Number pf (JStr s) = str2num pf s"
| "Number pf (JArr xs) = str2num pf (ToString pf (JArr xs))"
| "Number pf (JObj kvs) = str2num pf (ToString pf (JObj kvs))"

text \<open>\<^verbatim>\<open>Boolean(v)\<close>: the truthiness of a value.\<close>

fun Boolean :: "('n::zero_neq_one) jsval \<Rightarrow> bool" where
  "Boolean JUndefined = False"
| "Boolean JNull = False"
| "Boolean (JBool b) = b"
| "Boolean (JNum NaN) = False"
| "Boolean (JNum (Num x)) = (x \<noteq> 0)"
| "Boolean (JStr s) = (s \<noteq> [])"
| "Boolean (JArr xs) = True"
| "Boolean (JObj kvs) = True"

subsection \<open>The lodash helpers the service imports\<close>

definition lodash_isNull :: "'n jsval \<Rightarrow> bool" where
  "lodash_isNull v = (v = JNull)"

fun lodash_isString :: "'n jsval \<Rightarrow> bool" where
  "lodash_isString (JStr s) = True"
| "lodash_isString JUndefined = False"
| "lodash_isString JNull = False"
| "lodash_isString (JBool b) = False"
| "lodash_isString (JNum n) = False"
| "lodash_isString (JArr xs) = False"
| "lodash_isString (JObj kvs) = False"

text \<open>
  \<^verbatim>\<open>_.isEmpty\<close>: \<^verbatim>\<open>null\<close> and \<^verbatim>\<open>undefined\<close> are empty, a string or array is empty when
  its length is 0, an object when it has no own key, any other value is empty.
\<close>

fun lodash_isEmpty :: "'n jsval \<Rightarrow> bool" where
  "lodash_isEmpty JUndefined = True"
| "lodash_isEmpty JNull = True"
| "lodash_isEmpty (JBool b) = True"
| "lodash_isEmpty (JNum n) = True"
| "lodash_isEmpty (JStr s) = (s = [])"
| "lodash_isEmpty (JArr xs) = (xs = [])"
| "lodash_isEmpty (JObj kvs) = (kvs = [])"

text \<open>
  \<^verbatim>\<open>_.join(array, separator)\<close> is \<^verbatim>\<open>array == null ? '' : nativeJoin.call(array, separator)\<close>:
  a string is joined character by character, a value with no length gives the empty string.
\<close>

fun lodash_join :: "'n platform \<Rightarrow> 'n jsval \<Rightarrow> string \<Rightarrow> string" where
  "lodash_join pf JUndefined sep = []"
| "lodash_join pf JNull sep = []"
| "lodash_join pf (JArr xs) sep = array_join pf sep xs"
| "lodash_join pf (JStr s) sep = join_sep sep (map (\<lambda>c. [c]) s)"
| "lodash_join pf (JBool b) sep = []"
| "lodash_join pf (JNum n) sep = []"
| "lodash_join pf (JObj kvs) sep = []"

text \<open>
  lodash's \<^verbatim>\<open>toString\<close>: \<^verbatim>\<open>null\<close> and \<^verbatim>\<open>undefined\<close> give the empty string, a string
  itself, an array the comma-joined \<^verbatim>\<open>baseToString\<close> of its elements, anything else
  \<^verbatim>\<open>value + ''\<close>.
\<close>

fun baseToString :: "'n platform \<Rightarrow> 'n jsval \<Rightarrow> string" where
  "baseToString pf (JStr s) = s"
| "baseToString pf (JArr xs) = join_sep '','' (map (baseToString pf) xs)"
| "baseToString pf JUndefined = ToString pf JUndefined"
| "baseToString pf JNull = ToString pf JNull"
| "baseToString pf (JBool b) = ToString pf (JBool b)"
| "baseToString pf (JNum n) = ToString pf (JNum n)"
| "baseToString pf (JObj kvs) = ToString pf (JObj kvs)"

definition lodash_toString :: "'n platform \<Rightarrow> 'n jsval \<Rightarrow> string" where
  "lodash_toString pf v = (if v = JUndefined \<or> v = JNull then [] else baseToString pf v)"

text \<open>
  \<^verbatim>\<open>String.prototype.split\<close> with a one-character separator: the pieces between the
  separators, so the empty string splits to one empty piece.
\<close>

fun split_char :: "char \<Rightarrow> string \<Rightarrow> string list" where
  "split_char c [] = [[]]"
| "split_char c (x # xs) =
     (if x = c then [] # split_char c xs
      else (x # hd (split_char c xs)) # tl (split_char c xs))"

text \<open>
  \<^verbatim>\<open>_.split(value, ',')\<close> is \<^verbatim>\<open>toString(value).split(',')\<close>; the separator in the
  service is always the one-character string \<^verbatim>\<open>','\<close>.
\<close>

definition lodash_split :: "'n platform \<Rightarrow> 'n jsval \<Rightarrow> char \<Rightarrow> 'n jsval" where
  "lodash_split pf v c = JArr (map JStr (split_char c (lodash_toString pf v)))"

section \<open>The format translator\<close>

text \<open>
  \<^verbatim>\<open>
  formatToClickhouse(project: any): object {
    const updProject = { ...project }
    updProject.active = Number(updProject.active)
    updProject.public = Number(updProject.public)
    if (!_isNull(updProject.origins)) {
      updProject.origins = _isString(updProject.origins)
        ? updProject.origins : _join(updProject.origins, ',')
    }
    if (!_isNull(updProject.ipBlacklist)) { ... the same ... }
    return updProject
  }
  \<close>
  The block for \<^verbatim>\<open>origins\<close> and the block for \<^verbatim>\<open>ipBlacklist\<close> differ in the
  field name only; \<open>join_field\<close> is that block for a field \<open>k\<close>.
\<close>

definition join_field :: "'n platform \<Rightarrow> string \<Rightarrow> 'n props \<Rightarrow> 'n props" where
  "join_field pf k updProject =
     (if \<not> lodash_isNull (get_prop updProject k)
      then set_prop k
             (if lodash_isString (get_prop updProject k) then get_prop updProject k
              else JStr (lodash_join pf (get_prop updProject k) '',''))
             updProject
      else updProject)"

definition formatToClickhouse :: "('n::zero_neq_one) platform \<Rightarrow> 'n jsval \<Rightarrow> 'n jsval" where
  "formatToClickhouse pf project =
     (let updProject = spread project;
          updProject = set_prop ''active'' (JNum (Number pf (get_prop updProject ''active''))) updProject;
          updProject = set_prop ''public'' (JNum (Number pf (get_prop updProject ''public''))) updProject;
          updProject = join_field pf ''origins'' updProject;
          updProject = join_field pf ''ipBlacklist'' updProject
      in JObj updProject)"

text \<open>
  \<^verbatim>\<open>
  formatFromClickhouse(project: any): Project {
    const updProject = { ...project }
    updProject.active = Boolean(updProject.active)
    updProject.public = Boolean(updProject.public)
    updProject.origins = _isNull(updProject.origins) ? [] : _split(updProject.origins, ',')
    updProject.ipBlacklist = _isNull(updProject.ipBlacklist) ? [] : _split(updProject.ipBlacklist, ',')
    return updProject
  }
  \<close>
  Again \<open>split_field\<close> is the assignment to a list field \<open>k\<close>.
\<close>

definition split_field :: "'n platform \<Rightarrow> string \<Rightarrow> 'n props \<Rightarrow> 'n props" where
  "split_field pf k updProject =
     set_prop k
       (if lodash_isNull (get_prop updProject k) then JArr []
        else lodash_split pf (get_prop updProject k) CHR '','')
       updProject"

definition formatFromClickhouse :: "('n::zero_neq_one) platform \<Rightarrow> 'n jsval \<Rightarrow> 'n jsval" where
  "formatFromClickhouse pf project =
     (let updProject = spread project;
          updProject = set_prop ''active'' (JBool (Boolean (get_prop updProject ''active''))) updProject;
          updProject = set_prop ''public'' (JBool (Boolean (get_prop updProject ''public''))) updProject;
          updProject = split_field pf ''origins'' updProject;
          updProject = split_field pf ''ipBlacklist'' updProject
      in JObj updProject)"

section \<open>Exceptions, constants and the outside world\<close>

text \<open>
  A thrown exception is a value: the class of the exception and its message.
  \<open>OtherError\<close> stands for anything a collaborator raises that is not one of the
  exception classes this service imports.
\<close>

datatype exception_kind =
    BadRequestException
  | ForbiddenException
  | UnprocessableEntityException
  | InternalServerErrorException
  | ConflictException
  | OtherError

type_synonym exception = "exception_kind \<times> string"

text \<open>
  The names the service imports from \<^verbatim>\<open>../common/constants\<close> and \<^verbatim>\<open>../common/utils\<close>,
  which are not part of the sources at hand, are parameters: the two regular expressions
  and \<^verbatim>\<open>isValidPID\<close> as predicates on strings, the cache key function, the cache
  time-to-live, and \<^verbatim>\<open>getProjectsClickhouse\<close> as the value the store query resolves to
  for an identifier (or the exception it rejects with).
\<close>

record 'n constants =
  isValidPID :: "string \<Rightarrow> bool"
  IP_REGEX :: "string \<Rightarrow> bool"
  ORIGINS_REGEX :: "string \<Rightarrow> bool"
  getRedisProjectKey :: "string \<Rightarrow> string"
  redisProjectCacheTimeout :: nat
  getProjectsClickhouse :: "string \<Rightarrow> exception + 'n jsval"

text \<open>
  The state a call can change or observe: the cache, each key with its value and the
  time-to-live it was written with, and the identifiers the store was queried for, in
  order.
\<close>

record world =
  redis_store :: "string \<Rightarrow> (string \<times> nat) option"
  store_queries :: "string list"

definition nullable_string :: "string option \<Rightarrow> 'n jsval" where
  "nullable_string s = (case s of None \<Rightarrow> JNull | Some t \<Rightarrow> JStr t)"

text \<open>\<^verbatim>\<open>redis.get(key)\<close> resolves to the stored string, or \<^verbatim>\<open>null\<close>.\<close>

definition redis_get :: "world \<Rightarrow> string \<Rightarrow> 'n jsval" where
  "redis_get w key = nullable_string (map_option fst (redis_store w key))"

text \<open>\<^verbatim>\<open>redis.set(key, value, 'EX', ttl)\<close>.\<close>

definition redis_set :: "world \<Rightarrow> string \<Rightarrow> string \<Rightarrow> nat \<Rightarrow> world" where
  "redis_set w key val ttl = w\<lparr>redis_store := (redis_store w)(key \<mapsto> (val, ttl))\<rparr>"

section \<open>The cache-through lookup\<close>

text \<open>
  \<^verbatim>\<open>
  async getRedisProject(pid: string): Promise<Project | null> {
    const pidKey = getRedisProjectKey(pid)
    let project: string | Project = await redis.get(pidKey)
    if (_isEmpty(project)) {
      project = this.formatFromClickhouse(await getProjectsClickhouse(pid))
      if (_isEmpty(project))
        throw new BadRequestException('The provided Project ID (pid) is incorrect')
      await redis.set(pidKey, JSON.stringify(project), 'EX', redisProjectCacheTimeout)
    } else {
      try { project = JSON.parse(project) }
      catch { throw new InternalServerErrorException('Error while processing project') }
    }
    return project
  }
  \<close>
  The result is the value returned or the exception thrown, with the world after the
  call. \<^verbatim>\<open>JSON.parse\<close> converts its argument to a string first. The cache client
  itself is taken not to fail; a rejection of the store query is passed on.
\<close>

definition getRedisProject ::
  "('n::zero_neq_one) platform \<Rightarrow> 'n constants \<Rightarrow> string \<Rightarrow> world
     \<Rightarrow> (exception + 'n jsval) \<times> world" where
  "getRedisProject pf c pid w =
     (let pidKey = getRedisProjectKey c pid;
          project = redis_get w pidKey
      in if lodash_isEmpty project then
           (let w1 = w\<lparr>store_queries := store_queries w @ [pid]\<rparr> in
            case getProjectsClickhouse c pid of
              Inl e \<Rightarrow> (Inl e, w1)
            | Inr row \<Rightarrow>
                (let project = formatFromClickhouse pf row in
                 if lodash_isEmpty project
                 then (Inl (BadRequestException, ''The provided Project ID (pid) is incorrect''), w1)
                 else (Inr project,
                       redis_set w1 pidKey (json_stringify pf project) (redisProjectCacheTimeout c))))
         else
           (case json_parse pf (ToString pf project) of
              None \<Rightarrow> (Inl (InternalServerErrorException, ''Error while processing project''), w)
            | Some v \<Rightarrow> (Inr v, w)))"

section \<open>Visibility and identifier uniqueness\<close>

text \<open>
  \<^verbatim>\<open>
  allowedToView(project: Project, uid: string | null): void {
    if (project.public || uid) { return null }
    throw new ForbiddenException('You are not allowed to view this project')
  }
  \<close>
\<close>

definition allowedToView :: "('n::zero_neq_one) props \<Rightarrow> string option \<Rightarrow> exception + unit" where
  "allowedToView project uid =
     (if Boolean (get_prop project ''public'') \<or> Boolean (nullable_string uid :: 'n jsval)
      then Inr ()
      else Inl (ForbiddenException, ''You are not allowed to view this project''))"

text \<open>\<^verbatim>\<open>_.find\<close>: the first element the predicate holds for, or \<^verbatim>\<open>undefined\<close>.\<close>

definition lodash_find :: "('n props \<Rightarrow> bool) \<Rightarrow> 'n props list \<Rightarrow> 'n jsval" where
  "lodash_find P xs = (case List.find P xs of None \<Rightarrow> JUndefined | Some p \<Rightarrow> JObj p)"

text \<open>
  \<^verbatim>\<open>
  isPIDUnique(projects: Array<object>, pid: string): boolean {
    return !_find(projects, ({ id }) => id === pid)
  }
  checkIfIDUnique(projects: Array<object>, pid: string): void {
    const isUnique = this.isPIDUnique(projects, pid)
    if (!isUnique) { throw new BadRequestException('Selected project ID is already in use') }
  }
  \<close>
\<close>

definition isPIDUnique :: "('n::zero_neq_one) props list \<Rightarrow> string \<Rightarrow> bool" where
  "isPIDUnique projects pid =
     (\<not> Boolean (lodash_find (\<lambda>p. get_prop p ''id'' = JStr pid) projects))"

definition checkIfIDUnique :: "('n::zero_neq_one) props list \<Rightarrow> string \<Rightarrow> exception + unit" where
  "checkIfIDUnique projects pid =
     (let isUnique = isPIDUnique projects pid
      in if \<not> isUnique
         then Inl (BadRequestException, ''Selected project ID is already in use'')
         else Inr ())"

section \<open>The range delete\<close>

text \<open>
  A command sent to the store is its query text with its bound parameters. Running a
  command is outside the repository: \<open>run\<close> gives, for a command, the time at which its
  promise settles and whether it is rejected (\<open>Inl\<close>) or fulfilled (\<open>Inr\<close>).

  \<^verbatim>\<open>Promise.all\<close> is fulfilled with all the values when no promise is rejected, and
  otherwise rejected with the reason of the promise that is rejected first.
\<close>

type_synonym command = "string \<times> (string \<times> string) list"

fun rejections :: "(nat \<times> ('e + 'a)) list \<Rightarrow> (nat \<times> 'e) list" where
  "rejections [] = []"
| "rejections ((t, Inl e) # ps) = (t, e) # rejections ps"
| "rejections ((t, Inr v) # ps) = rejections ps"

fun fulfilments :: "(nat \<times> ('e + 'a)) list \<Rightarrow> 'a list" where
  "fulfilments [] = []"
| "fulfilments ((t, Inl e) # ps) = fulfilments ps"
| "fulfilments ((t, Inr v) # ps) = v # fulfilments ps"

fun earliest :: "nat \<times> 'e \<Rightarrow> (nat \<times> 'e) list \<Rightarrow> nat \<times> 'e" where
  "earliest b [] = b"
| "earliest b (q # qs) = earliest (if fst q < fst b then q else b) qs"

definition promise_all :: "(nat \<times> ('e + 'a)) list \<Rightarrow> 'e + 'a list" where
  "promise_all ps =
     (case rejections ps of
        [] \<Rightarrow> Inr (fulfilments ps)
      | r # rs \<Rightarrow> Inl (snd (earliest r rs)))"

text \<open>
  \<^verbatim>\<open>
  async removeDataFromClickhouse(pid: string, from: string, to: string): Promise<void> {
    const queryAnalytics = 'ALTER TABLE analytics DELETE WHERE pid = {pid:FixedString(12)} AND created BETWEEN {from:String} AND {to:String}'
    const queryCustomEvents = 'ALTER TABLE customEV DELETE WHERE ...'
    const queryPerformance = 'ALTER TABLE performance DELETE WHERE ...'
    const params = { params: { pid, from, to } }
    await Promise.all([
      clickhouse.query(queryAnalytics, params).toPromise(),
      clickhouse.query(queryCustomEvents, params).toPromise(),
      clickhouse.query(queryPerformance, params).toPromise(),
    ])
  }
  \<close>
  The result is the list of commands issued, in order, and the outcome of the call.
\<close>

definition queryAnalytics :: string where
  "queryAnalytics = ''ALTER TABLE analytics DELETE WHERE pid = {pid:FixedString(12)} AND created BETWEEN {from:String} AND {to:String}''"

definition queryCustomEvents :: string where
  "queryCustomEvents = ''ALTER TABLE customEV DELETE WHERE pid = {pid:FixedString(12)} AND created BETWEEN {from:String} AND {to:String}''"

definition queryPerformance :: string where
  "queryPerformance = ''ALTER TABLE performance DELETE WHERE pid = {pid:FixedString(12)} AND created BETWEEN {from:String} AND {to:String}''"

definition removeDataFromClickhouse ::
  "(command \<Rightarrow> nat \<times> ('e + 'a)) \<Rightarrow> string \<Rightarrow> string \<Rightarrow> string \<Rightarrow> command list \<times> ('e + unit)" where
  "removeDataFromClickhouse run pid from to =
     (let params = [(''pid'', pid), (''from'', from), (''to'', to)];
          issued = [(queryAnalytics, params), (queryCustomEvents, params), (queryPerformance, params)]
      in (issued,
          case promise_all (map run issued) of Inl e \<Rightarrow> Inl e | Inr vs \<Rightarrow> Inr ()))"

section \<open>The validator\<close>

text \<open>
  Modelled from the spec: the class \<^verbatim>\<open>ProjectDTO\<close> is declared outside the sources at
  hand. Of its fields the validator reads \<^verbatim>\<open>name\<close> and \<^verbatim>\<open>id\<close>, strings, and
  \<^verbatim>\<open>origins\<close> and \<^verbatim>\<open>ipBlacklist\<close>, lists of strings or \<^verbatim>\<open>null\<close> (\<open>None\<close>).
  The field names carry the prefix \<open>dto_\<close>.
\<close>

record projectDTO =
  dto_name :: string
  dto_id :: string
  dto_origins :: "string list option"
  dto_ipBlacklist :: "string list option"

text \<open>\<^verbatim>\<open>_.size\<close> of a string is its number of characters.\<close>

definition lodash_size :: "string \<Rightarrow> nat" where
  "lodash_size s = length s"

text \<open>\<^verbatim>\<open>_.join\<close> on a list of strings or \<^verbatim>\<open>null\<close>.\<close>

definition join_list :: "string list option \<Rightarrow> string \<Rightarrow> string" where
  "join_list xs sep = (case xs of None \<Rightarrow> [] | Some ys \<Rightarrow> join_sep sep ys)"

text \<open>
  \<^verbatim>\<open>_.trim\<close> removes the white space at both ends: the characters of the
  language's \<^verbatim>\<open>\s\<close>. A character of the model is a code point below 256, and of
  those \<^verbatim>\<open>\s\<close> holds tab, line feed, vertical tab, form feed, carriage return,
  space and the no-break space U+00A0.
\<close>

definition is_whitespace :: "char \<Rightarrow> bool" where
  "is_whitespace ch = ((of_char ch :: nat) \<in> set [9, 10, 11, 12, 13, 32, 160])"

definition lodash_trim :: "string \<Rightarrow> string" where
  "lodash_trim s = rev (dropWhile is_whitespace (rev (dropWhile is_whitespace s)))"

text \<open>
  \<^verbatim>\<open>
  _map(projectDTO.origins, host => {
    if (!ORIGINS_REGEX.test(_trim(host))) {
      throw new ConflictException(`Host ${host} is not correct`)
    }
  })
  _map(projectDTO.ipBlacklist, ip => {
    if (!net.isIP(_trim(ip)) && !IP_REGEX.test(_trim(ip))) {
      throw new ConflictException(`IP address ${ip} is not correct`)
    }
  })
  \<close>
  The callback runs on the entries in order; the first throw ends the call.
\<close>

fun check_hosts :: "'n constants \<Rightarrow> string list \<Rightarrow> exception + unit" where
  "check_hosts c [] = Inr ()"
| "check_hosts c (host # hosts) =
     (if \<not> ORIGINS_REGEX c (lodash_trim host)
      then Inl (ConflictException, ''Host '' @ host @ '' is not correct'')
      else check_hosts c hosts)"

fun check_ips :: "'n platform \<Rightarrow> 'n constants \<Rightarrow> string list \<Rightarrow> exception + unit" where
  "check_ips pf c [] = Inr ()"
| "check_ips pf c (ip # ips) =
     (if net_isIP pf (lodash_trim ip) = 0 \<and> \<not> IP_REGEX c (lodash_trim ip)
      then Inl (ConflictException, ''IP address '' @ ip @ '' is not correct'')
      else check_ips pf c ips)"

text \<open>
  \<^verbatim>\<open>
  validateProject(projectDTO: ProjectDTO, creatingProject = false) {
    if (_size(projectDTO.name) > 50)
      throw new UnprocessableEntityException('The project name is too long')
    if (creatingProject) { return }
    if (!isValidPID(projectDTO.id))
      throw new UnprocessableEntityException('The provided Project ID (pid) is incorrect')
    if (_size(_join(projectDTO.origins, ',')) > 300)
      throw new UnprocessableEntityException('The list of allowed origins has to be smaller than 300 symbols')
    if (_size(_join(projectDTO.ipBlacklist, ',')) > 300)
      throw new UnprocessableEntityException('The list of allowed blacklisted IP addresses must be less than 300 characters.')
    _map(projectDTO.origins, ...)
    _map(projectDTO.ipBlacklist, ...)
  }
  \<close>
\<close>

definition validateProject ::
  "'n platform \<Rightarrow> 'n constants \<Rightarrow> projectDTO \<Rightarrow> bool \<Rightarrow> exception + unit" where
  "validateProject pf c projectDTO creatingProject =
     (if lodash_size (dto_name projectDTO) > 50
      then Inl (UnprocessableEntityException, ''The project name is too long'')
      else if creatingProject then Inr ()
      else if \<not> isValidPID c (dto_id projectDTO)
      then Inl (UnprocessableEntityException, ''The provided Project ID (pid) is incorrect'')
      else if lodash_size (join_list (dto_origins projectDTO) '','') > 300
      then Inl (UnprocessableEntityException,
                ''The list of allowed origins has to be smaller than 300 symbols'')
      else if lodash_size (join_list (dto_ipBlacklist projectDTO) '','') > 300
      then Inl (UnprocessableEntityException,
                ''The list of allowed blacklisted IP addresses must be less than 300 characters.'')
      else (case check_hosts c (case dto_origins projectDTO of None \<Rightarrow> [] | Some hs \<Rightarrow> hs) of
              Inl e \<Rightarrow> Inl e
            | Inr u \<Rightarrow> check_ips pf c (case dto_ipBlacklist projectDTO of None \<Rightarrow> [] | Some ips \<Rightarrow> ips)))"

section \<open>An instantiation of the parameters\<close>

text \<open>
  The closed examples below need values for the parameters. Numbers are the integers
  printed in decimal; \<^verbatim>\<open>net.isIP\<close> knows the dotted IPv4 form (four decimal parts of at
  most 255, no leading zeros); the IP range pattern is an IPv4 address, a slash and a
  prefix length of at most 32; the host pattern accepts a non-empty string with no
  white space or comma; an identifier is valid when it has 12 characters; the
  cache key is a prefix before the identifier; the store holds one project.
  \<^verbatim>\<open>JSON.stringify\<close> prints without escapes and \<^verbatim>\<open>JSON.parse\<close> reads back the
  documents of a fixed list.
\<close>

definition is_digit :: "char \<Rightarrow> bool" where
  "is_digit ch = (48 \<le> (of_char ch :: nat) \<and> (of_char ch :: nat) \<le> 57)"

fun digits_value :: "nat \<Rightarrow> string \<Rightarrow> nat" where
  "digits_value acc [] = acc"
| "digits_value acc (ch # cs) = digits_value (10 * acc + (of_char ch - 48)) cs"

definition decimal :: "string \<Rightarrow> nat option" where
  "decimal s =
     (if s \<noteq> [] \<and> list_all is_digit s \<and> (length s = 1 \<or> hd s \<noteq> CHR ''0'')
      then Some (digits_value 0 s) else None)"

definition at_most :: "nat \<Rightarrow> string \<Rightarrow> bool" where
  "at_most bound s = (case decimal s of None \<Rightarrow> False | Some n \<Rightarrow> n \<le> bound)"

definition example_isIP :: "string \<Rightarrow> nat" where
  "example_isIP s =
     (let parts = split_char CHR ''.'' s
      in if length parts = 4 \<and> list_all (at_most 255) parts then 4 else 0)"

definition example_IP_REGEX :: "string \<Rightarrow> bool" where
  "example_IP_REGEX s =
     (case split_char CHR ''/'' s of
        [a, m] \<Rightarrow> example_isIP a = 4 \<and> at_most 32 m
      | _ \<Rightarrow> False)"

definition example_ORIGINS_REGEX :: "string \<Rightarrow> bool" where
  "example_ORIGINS_REGEX s =
     (s \<noteq> [] \<and> list_all (\<lambda>ch. \<not> is_whitespace ch \<and> ch \<noteq> CHR '','') s)"

fun example_num2str :: "int jsnum \<Rightarrow> string" where
  "example_num2str NaN = ''NaN''"
| "example_num2str (Num i) =
     (if i < 0 then ''-'' @ string_of_nat (nat (- i)) else string_of_nat (nat i))"

definition example_str2num :: "string \<Rightarrow> int jsnum" where
  "example_str2num s =
     (if s = [] then Num 0
      else case decimal s of None \<Rightarrow> NaN | Some n \<Rightarrow> Num (int n))"

definition quoted :: "string \<Rightarrow> string" where
  "quoted s = [CHR 0x22] @ s @ [CHR 0x22]"

fun example_stringify :: "int jsval \<Rightarrow> string" where
  "example_stringify JUndefined = ''null''"
| "example_stringify JNull = ''null''"
| "example_stringify (JBool b) = (if b then ''true'' else ''false'')"
| "example_stringify (JNum NaN) = ''null''"
| "example_stringify (JNum (Num i)) = example_num2str (Num i)"
| "example_stringify (JStr s) = quoted s"
| "example_stringify (JArr xs) = ''['' @ join_sep '','' (map example_stringify xs) @ '']''"
| "example_stringify (JObj kvs) =
     ''{'' @ join_sep '','' (map (\<lambda>p. quoted (fst p) @ '':'' @ example_stringify (snd p)) kvs) @ ''}''"

definition example_project :: "int jsval" where
  "example_project =
     JObj [(''id'', JStr ''ABCDEFGHIJKL''), (''name'', JStr ''Site''),
           (''active'', JBool True), (''public'', JBool False),
           (''origins'', JArr [JStr ''example.com'', JStr ''*.example.org'']),
           (''ipBlacklist'', JArr [JStr ''10.0.0.1''])]"

definition example_row :: "int jsval" where
  "example_row =
     JObj [(''id'', JStr ''ABCDEFGHIJKL''), (''name'', JStr ''Site''),
           (''active'', JNum (Num 1)), (''public'', JNum (Num 0)),
           (''origins'', JStr ''example.com,*.example.org''),
           (''ipBlacklist'', JStr ''10.0.0.1'')]"

definition example_parse :: "string \<Rightarrow> int jsval option" where
  "example_parse s = List.find (\<lambda>v. example_stringify v = s) [example_project, example_row]"

definition example_platform :: "int platform" where
  "example_platform =
     \<lparr>str2num = example_str2num, num2str = example_num2str,
      json_stringify = example_stringify, json_parse = example_parse,
      net_isIP = example_isIP\<rparr>"

definition example_constants :: "int constants" where
  "example_constants =
     \<lparr>isValidPID = (\<lambda>s. length s = 12),
      IP_REGEX = example_IP_REGEX,
      ORIGINS_REGEX = example_ORIGINS_REGEX,
      getRedisProjectKey = (\<lambda>pid. ''pid_'' @ pid),
      redisProjectCacheTimeout = 3600,
      getProjectsClickhouse =
        (\<lambda>pid. Inr (if pid = ''ABCDEFGHIJKL'' then example_row else JUndefined))\<rparr>"

definition empty_world :: world where
  "empty_world = \<lparr>redis_store = (\<lambda>k. None), store_queries = []\<rparr>"

text \<open>A project with no origins and no IP list, and a row that is not of storage shape.\<close>

definition example_sparse_project :: "int jsval" where
  "example_sparse_project =
     JObj [(''id'', JStr ''ABCDEFGHIJKL''), (''name'', JStr ''Site''),
           (''active'', JBool True), (''public'', JBool False),
           (''origins'', JArr []), (''ipBlacklist'', JNull)]"

definition example_malformed_row :: "int jsval" where
  "example_malformed_row =
     JObj [(''id'', JStr ''ABCDEFGHIJKL''), (''active'', JStr ''no''), (''public'', JNull),
           (''origins'', JNum (Num 42)), (''ipBlacklist'', JArr [JStr ''a'', JStr ''b''])]"

text \<open>A cache that holds the example project, and one that holds a broken document.\<close>

definition example_warm_world :: world where
  "example_warm_world =
     redis_set empty_world ''pid_ABCDEFGHIJKL'' (example_stringify example_project) 3600"

definition example_corrupt_world :: world where
  "example_corrupt_world = redis_set empty_world ''pid_ABCDEFGHIJKL'' ''{not json'' 3600"

text \<open>A store whose delete on the custom events table is rejected.\<close>

definition example_run :: "command \<Rightarrow> nat \<times> (string + unit)" where
  "example_run cmd =
     (if fst cmd = queryCustomEvents then (2, Inl ''store unavailable'') else (1, Inr ()))"

definition example_dto :: "string \<Rightarrow> string list \<Rightarrow> string list \<Rightarrow> projectDTO" where
  "example_dto n hosts ips =
     \<lparr>dto_name = n, dto_id = ''ABCDEFGHIJKL'', dto_origins = Some hosts, dto_ipBlacklist = Some ips\<rparr>"

section \<open>Properties of property lists, joining and splitting\<close>

lemma map_of_set_prop: "map_of (set_prop k v ps) = (map_of ps)(k \<mapsto> v)"
  by (induction ps) (auto simp: fun_eq_iff)

lemma get_prop_set_prop:
  "get_prop (set_prop k v ps) k' = (if k' = k then v else get_prop ps k')"
  by (simp add: get_prop_def map_of_set_prop)

lemma get_prop_of: "map_of ps k = Some v \<Longrightarrow> get_prop ps k = v"
  by (simp add: get_prop_def)

lemma set_prop_same: "map_of ps k = Some v \<Longrightarrow> set_prop k v ps = ps"
  by (induction ps) (auto split: if_splits)

lemma set_prop_get: "get_prop ps k = v \<Longrightarrow> v \<noteq> JUndefined \<Longrightarrow> set_prop k v ps = ps"
  by (rule set_prop_same) (auto simp: get_prop_def split: option.splits)

lemma set_prop_twice: "set_prop k v (set_prop k w ps) = set_prop k v ps"
  by (induction ps) auto

lemma keys_set_prop: "fst ` set (set_prop k v ps) = insert k (fst ` set ps)"
  by (induction ps) auto

lemma map_of_key: "map_of ps k = Some v \<Longrightarrow> k \<in> fst ` set ps"
  by (metis domI dom_map_of_conv_image_fst)

text \<open>Assignments to different keys commute once one of the keys is there.\<close>

lemma set_prop_swap:
  "k \<noteq> k' \<Longrightarrow> k \<in> fst ` set ps \<or> k' \<in> fst ` set ps \<Longrightarrow>
   set_prop k v (set_prop k' v' ps) = set_prop k' v' (set_prop k v ps)"
  by (induction ps) auto

text \<open>
  Four fields overwritten and then written back with the values they had: the object
  is as it was, keys in their places.
\<close>

lemma four_sets_back:
  assumes "map_of ps k1 = Some v1" and "map_of ps k2 = Some v2"
    and "map_of ps k3 = Some v3" and "map_of ps k4 = Some v4"
    and "distinct [k1, k2, k3, k4]"
  shows "set_prop k4 v4 (set_prop k3 v3 (set_prop k2 v2 (set_prop k1 v1
           (set_prop k4 w4 (set_prop k3 w3 (set_prop k2 w2 (set_prop k1 w1 ps))))))) = ps"
proof -
  have in1: "k1 \<in> fst ` set ps" and in2: "k2 \<in> fst ` set ps"
    and in3: "k3 \<in> fst ` set ps"
    using assms(1-3) by (auto dest: map_of_key)
  have d: "k1 \<noteq> k2" "k1 \<noteq> k3" "k1 \<noteq> k4" "k2 \<noteq> k3" "k2 \<noteq> k4" "k3 \<noteq> k4"
    using assms(5) by auto
  let ?inner = "set_prop k4 w4 (set_prop k3 w3 (set_prop k2 w2 (set_prop k1 w1 ps)))"
  have s1: "set_prop k1 v1 ?inner = set_prop k4 w4 (set_prop k3 w3 (set_prop k2 w2 ps))"
  proof -
    have "set_prop k1 v1 ?inner
        = set_prop k4 w4 (set_prop k3 w3 (set_prop k2 w2 (set_prop k1 v1 (set_prop k1 w1 ps))))"
      using d in1 by (simp add: set_prop_swap keys_set_prop)
    also have "\<dots> = set_prop k4 w4 (set_prop k3 w3 (set_prop k2 w2 ps))"
      using assms(1) by (simp add: set_prop_twice set_prop_same)
    finally show ?thesis .
  qed
  have s2: "set_prop k2 v2 (set_prop k4 w4 (set_prop k3 w3 (set_prop k2 w2 ps)))
      = set_prop k4 w4 (set_prop k3 w3 ps)"
  proof -
    have "set_prop k2 v2 (set_prop k4 w4 (set_prop k3 w3 (set_prop k2 w2 ps)))
        = set_prop k4 w4 (set_prop k3 w3 (set_prop k2 v2 (set_prop k2 w2 ps)))"
      using d in2 by (simp add: set_prop_swap keys_set_prop)
    also have "\<dots> = set_prop k4 w4 (set_prop k3 w3 ps)"
      using assms(2) by (simp add: set_prop_twice set_prop_same)
    finally show ?thesis .
  qed
  have s3: "set_prop k3 v3 (set_prop k4 w4 (set_prop k3 w3 ps)) = set_prop k4 w4 ps"
  proof -
    have "set_prop k3 v3 (set_prop k4 w4 (set_prop k3 w3 ps))
        = set_prop k4 w4 (set_prop k3 v3 (set_prop k3 w3 ps))"
      using d in3 by (simp add: set_prop_swap keys_set_prop)
    also have "\<dots> = set_prop k4 w4 ps"
      using assms(3) by (simp add: set_prop_twice set_prop_same)
    finally show ?thesis .
  qed
  have s4: "set_prop k4 v4 (set_prop k4 w4 ps) = ps"
    using assms(4) by (simp add: set_prop_twice set_prop_same)
  show ?thesis
    by (simp only: s1 s2 s3 s4)
qed

lemma split_char_plain: "c \<notin> set w \<Longrightarrow> split_char c w = [w]"
  by (induction w) auto

lemma split_char_append:
  "c \<notin> set w \<Longrightarrow> split_char c (w @ c # rest) = w # split_char c rest"
  by (induction w) auto

text \<open>Splitting undoes joining when there is a piece and no piece holds the separator.\<close>

lemma split_char_join:
  "ws \<noteq> [] \<Longrightarrow> \<forall>w\<in>set ws. c \<notin> set w \<Longrightarrow> split_char c (join_sep [c] ws) = ws"
  by (induction "[c]" ws rule: join_sep.induct) (auto simp: split_char_plain split_char_append)

lemma array_join_strings: "array_join pf sep (map JStr ws) = join_sep sep ws"
  by (simp add: array_join_def comp_def)

lemma lodash_toString_string: "lodash_toString pf (JStr s) = s"
  by (simp add: lodash_toString_def)

lemma lodash_isString_iff: "lodash_isString v = (\<exists>s. v = JStr s)"
  by (cases v) auto

lemmas translator_eval =
  formatToClickhouse_def formatFromClickhouse_def join_field_def split_field_def
  get_prop_def lodash_isNull_def lodash_split_def lodash_toString_def array_join_def Let_def

section \<open>The format translator: round trip\<close>

lemma formatToClickhouse_project:
  assumes "map_of ps ''active'' = Some (JBool a)"
    and "map_of ps ''public'' = Some (JBool b)"
    and "map_of ps ''origins'' = Some (JArr (map JStr os))"
    and "map_of ps ''ipBlacklist'' = Some (JArr (map JStr ips))"
  shows "formatToClickhouse pf (JObj ps) =
    JObj (set_prop ''ipBlacklist'' (JStr (join_sep '','' ips))
           (set_prop ''origins'' (JStr (join_sep '','' os))
             (set_prop ''public'' (JNum (if b then Num 1 else Num 0))
               (set_prop ''active'' (JNum (if a then Num 1 else Num 0)) ps))))"
  using assms
  by (simp add: formatToClickhouse_def join_field_def get_prop_set_prop get_prop_of
      lodash_isNull_def array_join_strings Let_def)

lemma formatFromClickhouse_stored:
  assumes "os \<noteq> []" and "ips \<noteq> []"
    and "\<forall>w\<in>set os. CHR '','' \<notin> set w" and "\<forall>w\<in>set ips. CHR '','' \<notin> set w"
  shows "formatFromClickhouse pf
    (JObj (set_prop ''ipBlacklist'' (JStr (join_sep '','' ips))
           (set_prop ''origins'' (JStr (join_sep '','' os))
             (set_prop ''public'' (JNum (if b then Num 1 else Num 0))
               (set_prop ''active'' (JNum (if a then Num 1 else Num 0)) ps))))) =
    JObj (set_prop ''ipBlacklist'' (JArr (map JStr ips))
           (set_prop ''origins'' (JArr (map JStr os))
             (set_prop ''public'' (JBool b)
               (set_prop ''active'' (JBool a)
       (set_prop ''ipBlacklist'' (JStr (join_sep '','' ips))
           (set_prop ''origins'' (JStr (join_sep '','' os))
             (set_prop ''public'' (JNum (if b then Num 1 else Num 0))
               (set_prop ''active'' (JNum (if a then Num 1 else Num 0)) ps))))))))"
  using assms
  by (simp add: formatFromClickhouse_def split_field_def get_prop_set_prop
      lodash_isNull_def lodash_split_def lodash_toString_string split_char_join Let_def)

text \<open>
  Claim C1, as the code has it. The round trip
  \<^verbatim>\<open>formatFromClickhouse(formatToClickhouse(p)) == p\<close> holds for every project object
  whose \<^verbatim>\<open>active\<close> and \<^verbatim>\<open>public\<close> are booleans and whose \<^verbatim>\<open>origins\<close> and
  \<^verbatim>\<open>ipBlacklist\<close> are non-empty lists of strings that hold no comma. Every other
  property of the object is carried over untouched.
\<close>

theorem formatFromClickhouse_formatToClickhouse:
  assumes "map_of ps ''active'' = Some (JBool a)"
    and "map_of ps ''public'' = Some (JBool b)"
    and "map_of ps ''origins'' = Some (JArr (map JStr os))"
    and "map_of ps ''ipBlacklist'' = Some (JArr (map JStr ips))"
    and "os \<noteq> []" and "ips \<noteq> []"
    and "\<forall>w\<in>set os. CHR '','' \<notin> set w" and "\<forall>w\<in>set ips. CHR '','' \<notin> set w"
  shows "formatFromClickhouse pf (formatToClickhouse pf (JObj ps)) = JObj ps"
proof -
  have "formatFromClickhouse pf (formatToClickhouse pf (JObj ps)) =
    JObj (set_prop ''ipBlacklist'' (JArr (map JStr ips))
           (set_prop ''origins'' (JArr (map JStr os))
             (set_prop ''public'' (JBool b)
               (set_prop ''active'' (JBool a)
       (set_prop ''ipBlacklist'' (JStr (join_sep '','' ips))
           (set_prop ''origins'' (JStr (join_sep '','' os))
             (set_prop ''public'' (JNum (if b then Num 1 else Num 0))
               (set_prop ''active'' (JNum (if a then Num 1 else Num 0)) ps))))))))"
    by (simp only: formatToClickhouse_project [OF assms(1-4)]
        formatFromClickhouse_stored [OF assms(5-8)])
  also have "\<dots> = JObj ps"
  proof -
    have "distinct [''active'', ''public'', ''origins'', ''ipBlacklist'']"
      by simp
    from four_sets_back [OF assms(1-4) this] show ?thesis
      by simp
  qed
  finally show ?thesis .
qed

text \<open>The round trip at the example project.\<close>

theorem formatFromClickhouse_formatToClickhouse_witness:
  "formatFromClickhouse example_platform (formatToClickhouse example_platform example_project)
     = example_project"
  unfolding example_project_def
  by (rule formatFromClickhouse_formatToClickhouse [where a = True and b = False
        and os = "[''example.com'', ''*.example.org'']" and ips = "[''10.0.0.1'']"]) simp_all

text \<open>
  The round trip as claim C1 states it, with empty and \<^verbatim>\<open>null\<close> lists included, fails:
  an empty \<^verbatim>\<open>origins\<close> list is stored as the empty string and read back as the list
  of one empty string, and a \<^verbatim>\<open>null\<close> \<^verbatim>\<open>ipBlacklist\<close> is stored as \<^verbatim>\<open>null\<close> and read
  back as the empty list.
\<close>

theorem roundtrip_counterexample:
  "formatFromClickhouse example_platform (formatToClickhouse example_platform example_sparse_project)
     = JObj [(''id'', JStr ''ABCDEFGHIJKL''), (''name'', JStr ''Site''),
             (''active'', JBool True), (''public'', JBool False),
             (''origins'', JArr [JStr []]), (''ipBlacklist'', JArr [])]
   \<and> formatFromClickhouse example_platform (formatToClickhouse example_platform example_sparse_project)
     \<noteq> example_sparse_project"
  by (simp add: example_sparse_project_def translator_eval)

text \<open>An entry that holds a comma comes back as two entries.\<close>

lemma comma_entry_splits:
  "formatFromClickhouse example_platform
     (formatToClickhouse example_platform
        (JObj [(''active'', JBool True), (''public'', JBool True),
               (''origins'', JArr [JStr ''a,b'']), (''ipBlacklist'', JArr [JStr ''10.0.0.1''])]))
   = JObj [(''active'', JBool True), (''public'', JBool True),
           (''origins'', JArr [JStr ''a'', JStr ''b'']), (''ipBlacklist'', JArr [JStr ''10.0.0.1''])]"
  by (simp add: translator_eval)

section \<open>The format translator: a second application\<close>

lemma get_prop_join_field_other:
  "k' \<noteq> k \<Longrightarrow> get_prop (join_field pf k u) k' = get_prop u k'"
  by (simp add: join_field_def get_prop_set_prop)

lemma join_field_shape:
  "get_prop (join_field pf k u) k = JNull \<or> (\<exists>s. get_prop (join_field pf k u) k = JStr s)"
  by (auto simp: join_field_def get_prop_set_prop lodash_isNull_def lodash_isString_iff)

lemma join_field_fixed:
  assumes "get_prop u k = JNull \<or> (\<exists>s. get_prop u k = JStr s)"
  shows "join_field pf k u = u"
  using assms
proof
  assume "get_prop u k = JNull"
  then show ?thesis
    by (simp add: join_field_def lodash_isNull_def)
next
  assume "\<exists>s. get_prop u k = JStr s"
  then obtain s where s: "get_prop u k = JStr s" ..
  then have "set_prop k (JStr s) u = u"
    by (rule set_prop_get) simp
  with s show ?thesis
    by (simp add: join_field_def lodash_isNull_def)
qed

text \<open>
  Claim C10. \<^verbatim>\<open>formatToClickhouse\<close> is idempotent: applied to its own result it
  changes nothing, for every input value. After one application \<^verbatim>\<open>active\<close> and
  \<^verbatim>\<open>public\<close> are numbers, which \<^verbatim>\<open>Number\<close> returns as they are, and \<^verbatim>\<open>origins\<close>
  and \<^verbatim>\<open>ipBlacklist\<close> are \<^verbatim>\<open>null\<close> or strings, which the second application keeps.
\<close>

theorem formatToClickhouse_idempotent:
  "formatToClickhouse pf (formatToClickhouse pf p) = formatToClickhouse pf p"
proof -
  define u1 where
    "u1 = set_prop ''active'' (JNum (Number pf (get_prop (spread p) ''active''))) (spread p)"
  define u2 where "u2 = set_prop ''public'' (JNum (Number pf (get_prop u1 ''public''))) u1"
  define u3 where "u3 = join_field pf ''origins'' u2"
  define r where "r = join_field pf ''ipBlacklist'' u3"
  have res: "formatToClickhouse pf p = JObj r"
    by (simp add: formatToClickhouse_def Let_def u1_def u2_def u3_def r_def)
  have act: "get_prop r ''active'' = JNum (Number pf (get_prop (spread p) ''active''))"
    by (simp add: r_def u3_def u2_def u1_def get_prop_join_field_other get_prop_set_prop)
  have pub: "get_prop r ''public'' = JNum (Number pf (get_prop u1 ''public''))"
    by (simp add: r_def u3_def u2_def get_prop_join_field_other get_prop_set_prop)
  have "get_prop r ''origins'' = get_prop u3 ''origins''"
    by (simp add: r_def get_prop_join_field_other)
  with join_field_shape [of pf "''origins''" u2]
  have ori: "get_prop r ''origins'' = JNull \<or> (\<exists>s. get_prop r ''origins'' = JStr s)"
    by (simp add: u3_def)
  have ipb: "get_prop r ''ipBlacklist'' = JNull \<or> (\<exists>s. get_prop r ''ipBlacklist'' = JStr s)"
    unfolding r_def by (rule join_field_shape)
  have a1: "set_prop ''active'' (JNum (Number pf (get_prop r ''active''))) r = r"
    by (rule set_prop_get) (simp_all add: act)
  have a2: "set_prop ''public'' (JNum (Number pf (get_prop r ''public''))) r = r"
    by (rule set_prop_get) (simp_all add: pub)
  have a3: "join_field pf ''origins'' r = r"
    using ori by (rule join_field_fixed)
  have a4: "join_field pf ''ipBlacklist'' r = r"
    using ipb by (rule join_field_fixed)
  have "formatToClickhouse pf (JObj r) = JObj r"
    by (simp add: formatToClickhouse_def Let_def a1 a2 a3 a4)
  then show ?thesis
    by (simp add: res)
qed

section \<open>The format translator: malformed rows\<close>

lemma get_prop_split_field_other:
  "k' \<noteq> k \<Longrightarrow> get_prop (split_field pf k u) k' = get_prop u k'"
  by (simp add: split_field_def get_prop_set_prop)

lemma get_prop_split_field:
  "get_prop (split_field pf k u) k =
     (if get_prop u k = JNull then JArr [] else lodash_split pf (get_prop u k) CHR '','')"
  by (simp add: split_field_def get_prop_set_prop lodash_isNull_def)

text \<open>
  Claim C8, as the code has it. \<^verbatim>\<open>formatFromClickhouse\<close> has no failure path: for
  every row value, the missing row \<^verbatim>\<open>undefined\<close> included, it returns an object whose
  \<^verbatim>\<open>active\<close> and \<^verbatim>\<open>public\<close> are the truthiness of the row's fields and whose
  \<^verbatim>\<open>origins\<close> and \<^verbatim>\<open>ipBlacklist\<close> are the empty list for \<^verbatim>\<open>null\<close> and the comma
  split of the field's string form for anything else.
\<close>

theorem formatFromClickhouse_total:
  "\<exists>ps. formatFromClickhouse pf row = JObj ps
     \<and> get_prop ps ''active'' = JBool (Boolean (get_prop (spread row) ''active''))
     \<and> get_prop ps ''public'' = JBool (Boolean (get_prop (spread row) ''public''))
     \<and> get_prop ps ''origins'' =
         (if get_prop (spread row) ''origins'' = JNull then JArr []
          else lodash_split pf (get_prop (spread row) ''origins'') CHR '','')
     \<and> get_prop ps ''ipBlacklist'' =
         (if get_prop (spread row) ''ipBlacklist'' = JNull then JArr []
          else lodash_split pf (get_prop (spread row) ''ipBlacklist'') CHR '','')"
  by (simp add: formatFromClickhouse_def Let_def get_prop_split_field_other
      get_prop_split_field get_prop_set_prop)

text \<open>
  A row with a string for \<^verbatim>\<open>active\<close>, \<^verbatim>\<open>null\<close> for \<^verbatim>\<open>public\<close>, a number for
  \<^verbatim>\<open>origins\<close> and a list for \<^verbatim>\<open>ipBlacklist\<close> is translated without any failure:
  the string \<^verbatim>\<open>'no'\<close> becomes \<^verbatim>\<open>true\<close>, the number 42 the list \<^verbatim>\<open>['42']\<close>.
\<close>

theorem formatFromClickhouse_counterexample:
  "formatFromClickhouse example_platform example_malformed_row =
     JObj [(''id'', JStr ''ABCDEFGHIJKL''), (''active'', JBool True), (''public'', JBool False),
           (''origins'', JArr [JStr ''42'']), (''ipBlacklist'', JArr [JStr ''a'', JStr ''b''])]"
  by (simp add: example_malformed_row_def translator_eval example_platform_def digit_char_def)

section \<open>The cache-through lookup\<close>

lemma set_prop_not_Nil: "set_prop k v ps \<noteq> []"
  by (cases ps) auto

lemma formatFromClickhouse_not_empty: "\<not> lodash_isEmpty (formatFromClickhouse pf row)"
  by (simp add: formatFromClickhouse_def Let_def split_field_def set_prop_not_Nil)

text \<open>
  Claim C4. On a cache miss (no value, or the empty string) the store is queried once,
  and whatever value the query resolves to is translated, written to the cache under
  the project key with the fixed time-to-live, and returned. This is what the claim
  says for a row that is found. It is also what happens when no row is found: the
  translation of \<^verbatim>\<open>undefined\<close> is an object with four keys, the emptiness test after
  the translation never holds, and the call does not fail with the bad-identifier
  error.
\<close>

theorem getRedisProject_miss:
  assumes "map_option fst (redis_store w (getRedisProjectKey c pid)) = None
           \<or> map_option fst (redis_store w (getRedisProjectKey c pid)) = Some []"
    and "getProjectsClickhouse c pid = Inr row"
  shows "getRedisProject pf c pid w =
     (Inr (formatFromClickhouse pf row),
      redis_set (w\<lparr>store_queries := store_queries w @ [pid]\<rparr>) (getRedisProjectKey c pid)
        (json_stringify pf (formatFromClickhouse pf row)) (redisProjectCacheTimeout c))"
proof -
  have "lodash_isEmpty (redis_get w (getRedisProjectKey c pid) :: 'a jsval)"
    using assms(1) by (auto simp: redis_get_def nullable_string_def)
  then show ?thesis
    using assms(2)
    by (simp add: getRedisProject_def Let_def formatFromClickhouse_not_empty)
qed

text \<open>
  The lookup of an identifier the store has no row for, with an empty cache: the call
  returns a project made of defaults and caches it.
\<close>

theorem getRedisProject_miss_witness:
  "getRedisProject example_platform example_constants ''ZZZZZZZZZZZZ'' empty_world =
     (Inr (JObj [(''active'', JBool False), (''public'', JBool False),
                 (''origins'', JArr [JStr []]), (''ipBlacklist'', JArr [JStr []])]),
      redis_set (empty_world\<lparr>store_queries := [''ZZZZZZZZZZZZ'']\<rparr>) ''pid_ZZZZZZZZZZZZ''
        (example_stringify
           (JObj [(''active'', JBool False), (''public'', JBool False),
                  (''origins'', JArr [JStr []]), (''ipBlacklist'', JArr [JStr []])]))
        3600)"
  using getRedisProject_miss [of empty_world example_constants "''ZZZZZZZZZZZZ''" JUndefined
      example_platform]
  by (simp add: empty_world_def example_constants_def example_platform_def translator_eval)

text \<open>
  Claim C5. When the cache holds a non-empty value for the key, the call is decided by
  \<^verbatim>\<open>JSON.parse\<close> alone: a value that does not parse gives the internal-processing
  error, a value that parses is returned; in both cases the world is as before, so the
  store was not queried and the cache was not written.
\<close>

theorem getRedisProject_hit:
  assumes "redis_store w (getRedisProjectKey c pid) = Some (s, ttl)" and "s \<noteq> []"
  shows "getRedisProject pf c pid w =
     (case json_parse pf s of
        None \<Rightarrow> (Inl (InternalServerErrorException, ''Error while processing project''), w)
      | Some v \<Rightarrow> (Inr v, w))"
  using assms
  by (simp add: getRedisProject_def Let_def redis_get_def nullable_string_def)

lemma stringify_example_project:
  "example_stringify example_project \<noteq> ''{not json''"
  "example_stringify example_row \<noteq> ''{not json''"
  "example_stringify example_row \<noteq> example_stringify example_project"
  by (simp_all add: example_project_def example_row_def quoted_def)

text \<open>A warm cache returns the cached project; a corrupt entry is a hard failure.\<close>

theorem getRedisProject_hit_witness:
  "getRedisProject example_platform example_constants ''ABCDEFGHIJKL'' example_warm_world
     = (Inr example_project, example_warm_world)
   \<and> getRedisProject example_platform example_constants ''ABCDEFGHIJKL'' example_corrupt_world
     = (Inl (InternalServerErrorException, ''Error while processing project''),
        example_corrupt_world)"
proof
  have "example_stringify example_project \<noteq> []"
    by (simp add: example_project_def)
  from getRedisProject_hit [of example_warm_world example_constants "''ABCDEFGHIJKL''"
      "example_stringify example_project" 3600, OF _ this, of example_platform]
  show "getRedisProject example_platform example_constants ''ABCDEFGHIJKL'' example_warm_world
     = (Inr example_project, example_warm_world)"
    by (simp add: example_warm_world_def redis_set_def empty_world_def example_constants_def
        example_platform_def example_parse_def)
  from getRedisProject_hit [of example_corrupt_world example_constants "''ABCDEFGHIJKL''"
      "''{not json''" 3600 example_platform]
  show "getRedisProject example_platform example_constants ''ABCDEFGHIJKL'' example_corrupt_world
     = (Inl (InternalServerErrorException, ''Error while processing project''),
        example_corrupt_world)"
    by (simp add: example_corrupt_world_def redis_set_def empty_world_def example_constants_def
        example_platform_def example_parse_def stringify_example_project)
qed

section \<open>Visibility and identifier uniqueness\<close>

text \<open>
  Claim C2, as the code has it. \<^verbatim>\<open>allowedToView\<close> returns exactly when
  \<^verbatim>\<open>project.public\<close> is truthy or the viewer identity is a non-empty string; in every
  other case it throws the forbidden exception. It is a function of its arguments only.
\<close>

theorem allowedToView_iff:
  "(allowedToView project uid = Inr ()) =
     (Boolean (get_prop project ''public'') \<or> (uid \<noteq> None \<and> uid \<noteq> Some []))
   \<and> (allowedToView project uid = Inr () \<or>
      allowedToView project uid = Inl (ForbiddenException, ''You are not allowed to view this project''))"
  by (cases uid) (auto simp: allowedToView_def nullable_string_def)

text \<open>
  The empty string is a viewer identity that is not \<^verbatim>\<open>null\<close>, and it does not open a
  private project.
\<close>

theorem allowedToView_counterexample:
  "allowedToView ([(''id'', JStr ''ABCDEFGHIJKL''), (''public'', JBool False)] :: int props) (Some [])
     = Inl (ForbiddenException, ''You are not allowed to view this project'')
   \<and> Some [] \<noteq> (None :: string option)"
  by (simp add: allowedToView_def nullable_string_def get_prop_def)

text \<open>
  Claim C3, as the code has it. \<^verbatim>\<open>isPIDUnique\<close> is true exactly when the candidate is
  not the \<^verbatim>\<open>id\<close> of any of the projects, and \<^verbatim>\<open>checkIfIDUnique\<close> returns when it
  is true and throws \<^verbatim>\<open>BadRequestException\<close> when it is false.
\<close>

theorem isPIDUnique_iff:
  "isPIDUnique projects pid = (JStr pid \<notin> set (map (\<lambda>p. get_prop p ''id'') projects))
   \<and> checkIfIDUnique projects pid =
       (if isPIDUnique projects pid then Inr ()
        else Inl (BadRequestException, ''Selected project ID is already in use''))"
proof
  show "isPIDUnique projects pid = (JStr pid \<notin> set (map (\<lambda>p. get_prop p ''id'') projects))"
  proof (cases "List.find (\<lambda>p. get_prop p ''id'' = JStr pid) projects")
    case None
    then have "\<not> (\<exists>p. p \<in> set projects \<and> get_prop p ''id'' = JStr pid)"
      by (simp add: find_None_iff)
    with None show ?thesis
      by (auto simp: isPIDUnique_def lodash_find_def)
  next
    case (Some p)
    then have "p \<in> set projects" and "get_prop p ''id'' = JStr pid"
      by (auto simp: find_Some_iff)
    with Some show ?thesis
      by (force simp: isPIDUnique_def lodash_find_def)
  qed
  show "checkIfIDUnique projects pid =
       (if isPIDUnique projects pid then Inr ()
        else Inl (BadRequestException, ''Selected project ID is already in use''))"
    by (simp add: checkIfIDUnique_def)
qed

text \<open>The exception for an identifier in use is a bad request, not a conflict.\<close>

theorem checkIfIDUnique_counterexample:
  "checkIfIDUnique ([[(''id'', JStr ''ABCDEFGHIJKL'')]] :: int props list) ''ABCDEFGHIJKL''
     = Inl (BadRequestException, ''Selected project ID is already in use'')
   \<and> BadRequestException \<noteq> ConflictException"
  by (simp add: checkIfIDUnique_def isPIDUnique_def lodash_find_def get_prop_def)

section \<open>The validator\<close>

lemma check_hosts_ok:
  "list_all (\<lambda>host. ORIGINS_REGEX c (lodash_trim host)) hosts \<Longrightarrow> check_hosts c hosts = Inr ()"
  by (induction hosts) auto

lemma check_ips_ok:
  "list_all (\<lambda>ip. net_isIP pf (lodash_trim ip) \<noteq> 0 \<or> IP_REGEX c (lodash_trim ip)) ips
   \<Longrightarrow> check_ips pf c ips = Inr ()"
  by (induction ips) auto

lemma check_ips_first_bad:
  assumes "list_all (\<lambda>ip. net_isIP pf (lodash_trim ip) \<noteq> 0 \<or> IP_REGEX c (lodash_trim ip)) good"
    and "net_isIP pf (lodash_trim bad) = 0" and "\<not> IP_REGEX c (lodash_trim bad)"
  shows "check_ips pf c (good @ bad # rest) =
     Inl (ConflictException, ''IP address '' @ bad @ '' is not correct'')"
  using assms by (induction good) auto

lemma lodash_trim_letters: "lodash_trim (replicate n CHR ''a'') = replicate n CHR ''a''"
  by (simp add: lodash_trim_def is_whitespace_def)

lemma example_ORIGINS_REGEX_letters:
  "0 < n \<Longrightarrow> example_ORIGINS_REGEX (replicate n CHR ''a'')"
  by (auto simp: example_ORIGINS_REGEX_def list_all_iff is_whitespace_def)

lemma example_ip_entries:
  "example_isIP (lodash_trim ''10.0.0.999'') = 0"
  "\<not> example_IP_REGEX (lodash_trim ''10.0.0.999'')"
  "example_isIP (lodash_trim '' 10.0.0.1 '') = 4"
  "example_isIP (lodash_trim ''10.0.0.1'') = 4"
  "example_IP_REGEX (lodash_trim ''10.0.0.0/8'')"
  "example_ORIGINS_REGEX (lodash_trim ''example.com'')"
  "example_isIP (lodash_trim (CHR 0xA0 # ''10.0.0.1'')) = 4"
  by code_simp+

text \<open>
  Claim C6. A name of at most 50 characters passes the name check and a longer one fails
  with the size violation, so 50 passes and 51 fails. When updating, a joined
  \<^verbatim>\<open>origins\<close> of more than 300 characters fails with its size violation, then a joined
  \<^verbatim>\<open>ipBlacklist\<close> of more than 300 characters with its own; with both at most 300,
  so at exactly 300, and every entry well formed, the project is accepted.
\<close>

theorem validateProject_boundaries:
  "(lodash_size (dto_name d) \<le> 50 \<longrightarrow> validateProject pf c d True = Inr ())
   \<and> (lodash_size (dto_name d) > 50 \<longrightarrow>
        validateProject pf c d creating =
          Inl (UnprocessableEntityException, ''The project name is too long''))
   \<and> (lodash_size (dto_name d) \<le> 50 \<and> isValidPID c (dto_id d)
        \<and> lodash_size (join_list (dto_origins d) '','') > 300 \<longrightarrow>
        validateProject pf c d False =
          Inl (UnprocessableEntityException,
               ''The list of allowed origins has to be smaller than 300 symbols''))
   \<and> (lodash_size (dto_name d) \<le> 50 \<and> isValidPID c (dto_id d)
        \<and> lodash_size (join_list (dto_origins d) '','') \<le> 300
        \<and> lodash_size (join_list (dto_ipBlacklist d) '','') > 300 \<longrightarrow>
        validateProject pf c d False =
          Inl (UnprocessableEntityException,
               ''The list of allowed blacklisted IP addresses must be less than 300 characters.''))
   \<and> (lodash_size (dto_name d) \<le> 50 \<and> isValidPID c (dto_id d)
        \<and> lodash_size (join_list (dto_origins d) '','') \<le> 300
        \<and> lodash_size (join_list (dto_ipBlacklist d) '','') \<le> 300
        \<and> list_all (\<lambda>host. ORIGINS_REGEX c (lodash_trim host))
              (case dto_origins d of None \<Rightarrow> [] | Some hs \<Rightarrow> hs)
        \<and> list_all (\<lambda>ip. net_isIP pf (lodash_trim ip) \<noteq> 0 \<or> IP_REGEX c (lodash_trim ip))
              (case dto_ipBlacklist d of None \<Rightarrow> [] | Some ips \<Rightarrow> ips) \<longrightarrow>
        validateProject pf c d False = Inr ())"
  by (simp add: validateProject_def check_hosts_ok check_ips_ok)

text \<open>The boundaries: 50 and 51 characters of name, 300 and 301 of joined list.\<close>

theorem validateProject_boundaries_witness:
  "validateProject example_platform example_constants
      (example_dto (replicate 50 CHR ''a'') [] []) True = Inr ()
   \<and> validateProject example_platform example_constants
      (example_dto (replicate 51 CHR ''a'') [] []) True =
        Inl (UnprocessableEntityException, ''The project name is too long'')
   \<and> validateProject example_platform example_constants
      (example_dto (replicate 50 CHR ''a'')
         [replicate 149 CHR ''a'', replicate 150 CHR ''a''] [''10.0.0.1'']) False = Inr ()
   \<and> validateProject example_platform example_constants
      (example_dto (replicate 50 CHR ''a'')
         [replicate 150 CHR ''a'', replicate 150 CHR ''a''] [''10.0.0.1'']) False =
        Inl (UnprocessableEntityException,
             ''The list of allowed origins has to be smaller than 300 symbols'')
   \<and> validateProject example_platform example_constants
      (example_dto (replicate 50 CHR ''a'')
         [replicate 149 CHR ''a'', replicate 150 CHR ''a''] [replicate 301 CHR ''1'']) False =
        Inl (UnprocessableEntityException,
             ''The list of allowed blacklisted IP addresses must be less than 300 characters.'')"
  using
    validateProject_boundaries [of "example_dto (replicate 50 CHR ''a'') [] []"
      example_platform example_constants True]
    validateProject_boundaries [of "example_dto (replicate 51 CHR ''a'') [] []"
      example_platform example_constants True]
    validateProject_boundaries [of "example_dto (replicate 50 CHR ''a'')
         [replicate 149 CHR ''a'', replicate 150 CHR ''a''] [''10.0.0.1'']"
      example_platform example_constants False]
    validateProject_boundaries [of "example_dto (replicate 50 CHR ''a'')
         [replicate 150 CHR ''a'', replicate 150 CHR ''a''] [''10.0.0.1'']"
      example_platform example_constants False]
    validateProject_boundaries [of "example_dto (replicate 50 CHR ''a'')
         [replicate 149 CHR ''a'', replicate 150 CHR ''a''] [replicate 301 CHR ''1'']"
      example_platform example_constants False]
  by (simp add: example_dto_def example_platform_def example_constants_def lodash_size_def
      join_list_def lodash_trim_letters example_ORIGINS_REGEX_letters example_ip_entries)

text \<open>
  Claim C7. When updating, with the name, the identifier, the two joined lengths and
  every host accepted, the validator fails at the first entry of \<^verbatim>\<open>ipBlacklist\<close> that,
  trimmed, is neither an address for \<^verbatim>\<open>net.isIP\<close> nor a match of the range pattern;
  the exception is a conflict and its message holds the entry as it was given.
\<close>

theorem validateProject_first_bad_ip:
  assumes "lodash_size (dto_name d) \<le> 50" and "isValidPID c (dto_id d)"
    and "lodash_size (join_list (dto_origins d) '','') \<le> 300"
    and "lodash_size (join_list (dto_ipBlacklist d) '','') \<le> 300"
    and "list_all (\<lambda>host. ORIGINS_REGEX c (lodash_trim host))
           (case dto_origins d of None \<Rightarrow> [] | Some hs \<Rightarrow> hs)"
    and "dto_ipBlacklist d = Some (good @ bad # rest)"
    and "list_all (\<lambda>ip. net_isIP pf (lodash_trim ip) \<noteq> 0 \<or> IP_REGEX c (lodash_trim ip)) good"
    and "net_isIP pf (lodash_trim bad) = 0" and "\<not> IP_REGEX c (lodash_trim bad)"
  shows "validateProject pf c d False =
     Inl (ConflictException, ''IP address '' @ bad @ '' is not correct'')"
  using assms
  by (simp add: validateProject_def check_hosts_ok check_ips_first_bad)

text \<open>
  The entry \<^verbatim>\<open>10.0.0.999\<close> is named: alone, after two entries that are accepted,
  and after an address that a no-break space precedes, which is trimmed and accepted.
\<close>

theorem validateProject_first_bad_ip_witness:
  "validateProject example_platform example_constants
      (example_dto ''Site'' [''example.com''] [''10.0.0.999'']) False =
        Inl (ConflictException, ''IP address 10.0.0.999 is not correct'')
   \<and> validateProject example_platform example_constants
      (example_dto ''Site'' [''example.com'']
         ['' 10.0.0.1 '', ''10.0.0.0/8'', ''10.0.0.999'', ''nowhere'']) False =
        Inl (ConflictException, ''IP address 10.0.0.999 is not correct'')
   \<and> validateProject example_platform example_constants
      (example_dto ''Site'' [''example.com''] [CHR 0xA0 # ''10.0.0.1'', ''10.0.0.999'']) False =
        Inl (ConflictException, ''IP address 10.0.0.999 is not correct'')"
  using
    validateProject_first_bad_ip [of "example_dto ''Site'' [''example.com'']
         [CHR 0xA0 # ''10.0.0.1'', ''10.0.0.999'']"
      example_constants "[CHR 0xA0 # ''10.0.0.1'']" "''10.0.0.999''" "[]" example_platform]
    validateProject_first_bad_ip [of "example_dto ''Site'' [''example.com''] [''10.0.0.999'']"
      example_constants "[]" "''10.0.0.999''" "[]" example_platform]
    validateProject_first_bad_ip [of "example_dto ''Site'' [''example.com'']
         ['' 10.0.0.1 '', ''10.0.0.0/8'', ''10.0.0.999'', ''nowhere'']"
      example_constants "['' 10.0.0.1 '', ''10.0.0.0/8'']" "''10.0.0.999''" "[''nowhere'']"
      example_platform]
  by (simp add: example_dto_def example_platform_def example_constants_def lodash_size_def
      join_list_def example_ip_entries)

section \<open>The range delete\<close>

lemma rejections_Nil_iff: "(rejections ps = []) = list_all (\<lambda>p. \<not> isl (snd p)) ps"
  by (induction ps rule: rejections.induct) auto

lemma earliest_mem: "earliest b qs \<in> set (b # qs)"
  by (induction qs arbitrary: b) (auto split: if_splits)

lemma rejections_mem: "(t, e) \<in> set (rejections ps) \<Longrightarrow> (t, Inl e) \<in> set ps"
  by (induction ps rule: rejections.induct) auto

lemma promise_all_Inr_iff:
  "(\<exists>vs. promise_all ps = Inr vs) = list_all (\<lambda>p. \<not> isl (snd p)) ps"
  by (simp add: promise_all_def rejections_Nil_iff [symmetric] split: list.splits)

lemma promise_all_Inl:
  assumes "promise_all ps = Inl e"
  shows "Inl e \<in> set (map snd ps)"
proof -
  from assms obtain r rs where rs: "rejections ps = r # rs" and e: "e = snd (earliest r rs)"
    by (auto simp: promise_all_def split: list.splits)
  have "earliest r rs \<in> set (rejections ps)"
    using earliest_mem [of r rs] by (simp add: rs)
  then have "(fst (earliest r rs), Inl e) \<in> set ps"
    using rejections_mem [of "fst (earliest r rs)" e ps] by (simp add: e)
  then show ?thesis
    by force
qed

text \<open>
  Claim C9. The call issues three commands, one for each of the tables
  \<^verbatim>\<open>analytics\<close>, \<^verbatim>\<open>customEV\<close> and \<^verbatim>\<open>performance\<close>. The text of each is fixed, with
  placeholders in \<^verbatim>\<open>pid = {pid} AND created BETWEEN {from} AND {to}\<close>, and the three
  values travel as bound parameters. The commands issued do not depend on how any of
  them ends. The call succeeds exactly when none of the three is rejected, and when
  it fails it fails with the reason of one of the rejected commands.
\<close>

theorem removeDataFromClickhouse_commands:
  "fst (removeDataFromClickhouse run pid from to) =
     [(''ALTER TABLE analytics DELETE WHERE pid = {pid:FixedString(12)} AND created BETWEEN {from:String} AND {to:String}'',
       [(''pid'', pid), (''from'', from), (''to'', to)]),
      (''ALTER TABLE customEV DELETE WHERE pid = {pid:FixedString(12)} AND created BETWEEN {from:String} AND {to:String}'',
       [(''pid'', pid), (''from'', from), (''to'', to)]),
      (''ALTER TABLE performance DELETE WHERE pid = {pid:FixedString(12)} AND created BETWEEN {from:String} AND {to:String}'',
       [(''pid'', pid), (''from'', from), (''to'', to)])]
   \<and> (snd (removeDataFromClickhouse run pid from to) = Inr ()) =
       list_all (\<lambda>cmd. \<not> isl (snd (run cmd))) (fst (removeDataFromClickhouse run pid from to))
   \<and> (\<forall>e. snd (removeDataFromClickhouse run pid from to) = Inl e \<longrightarrow>
         Inl e \<in> set (map (\<lambda>cmd. snd (run cmd)) (fst (removeDataFromClickhouse run pid from to))))"
proof (intro conjI allI impI)
  let ?issued = "fst (removeDataFromClickhouse run pid from to)"
  have res: "snd (removeDataFromClickhouse run pid from to) =
      (case promise_all (map run ?issued) of Inl e \<Rightarrow> Inl e | Inr vs \<Rightarrow> Inr ())"
    by (simp add: removeDataFromClickhouse_def Let_def)
  show "?issued =
     [(''ALTER TABLE analytics DELETE WHERE pid = {pid:FixedString(12)} AND created BETWEEN {from:String} AND {to:String}'',
       [(''pid'', pid), (''from'', from), (''to'', to)]),
      (''ALTER TABLE customEV DELETE WHERE pid = {pid:FixedString(12)} AND created BETWEEN {from:String} AND {to:String}'',
       [(''pid'', pid), (''from'', from), (''to'', to)]),
      (''ALTER TABLE performance DELETE WHERE pid = {pid:FixedString(12)} AND created BETWEEN {from:String} AND {to:String}'',
       [(''pid'', pid), (''from'', from), (''to'', to)])]"
    by (simp add: removeDataFromClickhouse_def Let_def queryAnalytics_def queryCustomEvents_def
        queryPerformance_def)
  have "(snd (removeDataFromClickhouse run pid from to) = Inr ()) =
      (\<exists>vs. promise_all (map run ?issued) = Inr vs)"
    by (simp add: res split: sum.splits)
  also have "\<dots> = list_all (\<lambda>p. \<not> isl (snd p)) (map run ?issued)"
    by (rule promise_all_Inr_iff)
  also have "\<dots> = list_all (\<lambda>cmd. \<not> isl (snd (run cmd))) ?issued"
    by (simp add: list_all_iff)
  finally show "(snd (removeDataFromClickhouse run pid from to) = Inr ()) =
      list_all (\<lambda>cmd. \<not> isl (snd (run cmd))) ?issued" .
  fix e
  assume "snd (removeDataFromClickhouse run pid from to) = Inl e"
  then have "promise_all (map run ?issued) = Inl e"
    by (simp add: res split: sum.splits)
  then have "Inl e \<in> set (map snd (map run ?issued))"
    by (rule promise_all_Inl)
  then show "Inl e \<in> set (map (\<lambda>cmd. snd (run cmd)) ?issued)"
    by (simp add: comp_def)
qed

text \<open>
  With the delete on the custom events table rejected the call fails with that reason
  and all three commands were issued; with no rejection it succeeds.
\<close>

theorem removeDataFromClickhouse_commands_witness:
  "snd (removeDataFromClickhouse example_run ''ABCDEFGHIJKL'' ''2024-01-01'' ''2024-02-01'')
     = Inl ''store unavailable''
   \<and> length (fst (removeDataFromClickhouse example_run ''ABCDEFGHIJKL'' ''2024-01-01'' ''2024-02-01'')) = 3
   \<and> snd (removeDataFromClickhouse (\<lambda>cmd. (1, Inr ()) :: nat \<times> (string + unit))
          ''ABCDEFGHIJKL'' ''2024-01-01'' ''2024-02-01'') = Inr ()"
proof -
  let ?failed = "removeDataFromClickhouse example_run ''ABCDEFGHIJKL'' ''2024-01-01'' ''2024-02-01''"
  let ?fine = "removeDataFromClickhouse (\<lambda>cmd. (1, Inr ()) :: nat \<times> (string + unit))
          ''ABCDEFGHIJKL'' ''2024-01-01'' ''2024-02-01''"
  from removeDataFromClickhouse_commands [of example_run "''ABCDEFGHIJKL''" "''2024-01-01''"
      "''2024-02-01''"]
  have len: "length (fst ?failed) = 3" and no: "snd ?failed \<noteq> Inr ()"
    and one: "\<forall>e. snd ?failed = Inl e \<longrightarrow> e = ''store unavailable''"
    by (auto simp: example_run_def queryCustomEvents_def)
  from no one have "snd ?failed = Inl ''store unavailable''"
    by (cases "snd ?failed") auto
  moreover
  from removeDataFromClickhouse_commands [of "\<lambda>cmd. (1, Inr ()) :: nat \<times> (string + unit)"
      "''ABCDEFGHIJKL''" "''2024-01-01''" "''2024-02-01''"]
  have "snd ?fine = Inr ()"
    by simp
  ultimately show ?thesis
    using len by simp
qed

end
